theory Spec2Isabelle
  imports Main "HOL-Library.Word"
begin

section \<open>The self-updater of \<open>main.go\<close>\<close>

text \<open>
  The program asks a release-lookup library whether a newer release exists, selects the
  asset named for the current platform, downloads it, unpacks the first entry of the
  gzip-compressed tar archive into a temporary file beside the running executable, makes
  that file executable and renames it over the executable.

  Everything the program does is a call into a library or the operating system. The
  embedding keeps the control flow of \<open>main.go\<close> as it is written and makes the outside
  world explicit:
  \<^item> the \<open>world\<close> record is the state the calls act on: the files, the text printed to
    standard output, and the trace of the calls made, in the order they are made;
  \<^item> the \<open>env\<close> record is everything the program cannot decide: the build's platform
    identifiers, what the lookup library answers, what the server sends, which calls
    fail and with which message.
  An \<open>error\<close> of Go is the text its \<open>Error()\<close> method returns. A call that returns
  \<open>(value, error)\<close> is a sum \<open>string + 'a\<close>, a call that returns only an \<open>error\<close> is
  a \<open>string option\<close> (\<open>None\<close> is Go's \<open>nil\<close>).
\<close>

subsection \<open>Data of the program\<close>

type_synonym byte = "8 word"
type_synonym path = string

text \<open>\<open>type infos struct\<close> and its constructor \<open>newInfos\<close>.\<close>

record infos =
  AppRepoOwner :: string
  AppName :: string
  AppVersion :: string

definition newInfos :: "string \<Rightarrow> string \<Rightarrow> string \<Rightarrow> infos" where
  "newInfos owner name ver =
     \<lparr>AppRepoOwner = owner, AppName = name, AppVersion = ver\<rparr>"

text \<open>\<open>binaryChmodValue = 0o755\<close>; \<open>os.FileMode\<close> is a \<open>uint32\<close>.\<close>

definition binaryChmodValue :: "32 word" where
  "binaryChmodValue = 7 * 64 + 5 * 8 + 5"

text \<open>The four error types, each with its \<open>Error()\<close> method.\<close>

datatype error =
    DownloadError string
  | ImportError string
  | GenerateError string
  | DeleteError string

fun Error :: "error \<Rightarrow> string" where
  "Error (DownloadError Message) = ''download error: '' @ Message"
| "Error (ImportError Message) = ''import error: '' @ Message"
| "Error (GenerateError Message) = ''generate error: '' @ Message"
| "Error (DeleteError Message) = ''delete error: '' @ Message"

text \<open>
  What \<open>grc.Check\<close> hands back: a release with its tag and its assets, of which the
  program reads the name and the download URL.
\<close>

record asset =
  Name :: string
  BrowserDownloadURL :: string

record release =
  TagName :: string
  Assets :: "asset list"

subsection \<open>The outside world\<close>

text \<open>
  A response body is represented by what \<open>compress/gzip\<close> and \<open>archive/tar\<close> decode from
  it; their byte-level decoders are library code. \<open>gzip.NewReader\<close> reads the gzip header
  when it is called, so a body is either one whose header is rejected there, with the
  error, or a stream of tar entries. An entry delivers \<open>data\<close> and then either ends
  (\<open>read_err = None\<close>) or fails; a stream delivers \<open>entries\<close> and then either ends
  (\<open>ending = None\<close>, a clean end of archive) or fails with a decompression or tar
  format error.
\<close>

record entry =
  data :: "byte list"
  read_err :: "string option"

record tarstream =
  entries :: "entry list"
  ending :: "string option"

datatype body =
    BadGzipHeader string
  | GzipStream tarstream

record regular_file =
  content :: "byte list"
  perm :: "32 word"

datatype handle = ResponseBody | GzipReader | TempFile path

text \<open>
  The library calls the program makes, each with what it returned: an \<open>error\<close> where the
  call returns only that (\<open>None\<close> is \<open>nil\<close>), the error or the path for
  \<open>os.CreateTemp\<close>, the path and the error for \<open>osext.Executable\<close>.
\<close>

datatype op =
    NewRequest string "string option"
  | Do string "string option"
  | NewReader "string option"
  | Next "string option"
  | Executable path "string option"
  | CreateTemp path string "string + path"
  | Copy path "string option"
  | Chmod path "32 word" "string option"
  | Rename path path "string option"
  | Close handle

record world =
  fs :: "path \<rightharpoonup> regular_file"
  stdout :: "string list"
  trace :: "op list"

text \<open>
  What the program cannot decide. \<open>GOOS\<close> and \<open>GOARCH\<close> are \<open>runtime.GOOS\<close> and
  \<open>runtime.GOARCH\<close>, constants of the build. \<open>check_result\<close> is what \<open>grc.Check\<close>
  returns, \<open>request_err\<close> the error of \<open>http.NewRequestWithContext\<close> for a URL,
  \<open>do_result\<close> the error or the response body of the GET, \<open>executable_result\<close> what
  \<open>osext.Executable\<close> returns, \<open>path_Dir\<close> the function \<open>path.Dir\<close>. The other fields
  say which file system calls fail: see the calls below.
\<close>

record env =
  GOOS :: string
  GOARCH :: string
  check_result :: "string \<Rightarrow> string \<Rightarrow> string \<Rightarrow> bool \<times> release \<times> string option"
  request_err :: "string \<Rightarrow> string option"
  do_result :: "string \<Rightarrow> string + body"
  executable_result :: "path \<times> string option"
  path_Dir :: "path \<Rightarrow> path"
  temp_names :: "path \<Rightarrow> string \<Rightarrow> string + path list"
  open_err :: "path \<Rightarrow> string option"
  write_fault :: "(nat \<times> string) option"
  chmod_err :: "path \<Rightarrow> string option"
  rename_err :: "path \<Rightarrow> path \<Rightarrow> string option"

text \<open>
  A Go function either returns or panics. A panic is not an \<open>error\<close> value: it unwinds
  the stack, running the deferred calls, and ends the process unless recovered
  (\<open>main.go\<close> never recovers).
\<close>

datatype 'a exit = Returned 'a | Panicked string

definition nil_dereference :: string where
  "nil_dereference = ''runtime error: invalid memory address or nil pointer dereference''"

definition Print :: "string \<Rightarrow> world \<Rightarrow> world" where
  "Print s w = w\<lparr>stdout := stdout w @ [s]\<rparr>"

definition Println :: "string \<Rightarrow> world \<Rightarrow> world" where
  "Println s w = Print (s @ ''\<newline>'') w"

definition record_op :: "op \<Rightarrow> world \<Rightarrow> world" where
  "record_op x w = w\<lparr>trace := trace w @ [x]\<rparr>"

text \<open>
  \<open>defer f()\<close>: the call runs when the enclosing function leaves, whether it returns or
  panics. A deferred call that panics makes the function panic.
\<close>

definition deferred ::
  "(world \<Rightarrow> string option \<times> world) \<Rightarrow> 'a exit \<times> world \<Rightarrow> 'a exit \<times> world" where
  "deferred d r =
     (case r of (x, w) \<Rightarrow>
        (case d w of (None, w') \<Rightarrow> (x, w') | (Some p, w') \<Rightarrow> (Panicked p, w')))"

definition Close_call :: "handle \<Rightarrow> world \<Rightarrow> string option \<times> world" where
  "Close_call h w = (None, record_op (Close h) w)"

subsection \<open>Library calls\<close>

definition http_NewRequestWithContext :: "env \<Rightarrow> string \<Rightarrow> world \<Rightarrow> string option \<times> world" where
  "http_NewRequestWithContext e uri w =
     (request_err e uri, record_op (NewRequest uri (request_err e uri)) w)"

definition client_Do :: "env \<Rightarrow> string \<Rightarrow> world \<Rightarrow> (string + body) \<times> world" where
  "client_Do e uri w =
     (case do_result e uri of
        Inl err \<Rightarrow> (Inl err, record_op (Do uri (Some err)) w)
      | Inr response \<Rightarrow> (Inr response, record_op (Do uri None) w))"

text \<open>
  \<open>gzip.NewReader(r)\<close> returns \<open>(nil, err)\<close> when the header is rejected, the reader and
  \<open>nil\<close> otherwise. A \<open>*gzip.Reader\<close> is a \<open>tarstream option\<close>, \<open>None\<close> the nil
  pointer.
\<close>

definition gzip_NewReader :: "body \<Rightarrow> world \<Rightarrow> (tarstream option \<times> string option) \<times> world" where
  "gzip_NewReader response w =
     (case response of
        BadGzipHeader err \<Rightarrow> ((None, Some err), record_op (NewReader (Some err)) w)
      | GzipStream s \<Rightarrow> ((Some s, None), record_op (NewReader None) w))"

text \<open>
  \<open>(*gzip.Reader).Close\<close> reads a field of its receiver: on a nil receiver it is a nil
  pointer dereference.
\<close>

definition gzip_Close :: "tarstream option \<Rightarrow> world \<Rightarrow> string option \<times> world" where
  "gzip_Close gzipReader w =
     (case gzipReader of
        None \<Rightarrow> (Some nil_dereference, w)
      | Some s \<Rightarrow> Close_call GzipReader w)"

text \<open>
  \<open>tar.NewReader(gzipReader).Next()\<close>. \<open>tar.NewReader\<close> only stores its argument; \<open>Next\<close>
  is the first read through it, and \<open>(*gzip.Reader).Read\<close> on a nil receiver is a nil
  pointer dereference. On a reader that is there, \<open>Next\<close> returns the first entry,
  \<open>io.EOF\<close> (whose text is \<open>EOF\<close>) at a clean end of archive, or the error the stream
  fails with.
\<close>

definition tar_Next :: "tarstream option \<Rightarrow> world \<Rightarrow> (string + entry) exit \<times> world" where
  "tar_Next gzipReader w =
     (case gzipReader of
        None \<Rightarrow> (Panicked nil_dereference, w)
      | Some s \<Rightarrow>
          (case entries s of
             [] \<Rightarrow>
               (let err = (case ending s of None \<Rightarrow> ''EOF'' | Some x \<Rightarrow> x)
                in (Returned (Inl err), record_op (Next (Some err)) w))
           | ent # rest \<Rightarrow> (Returned (Inr ent), record_op (Next None) w)))"

definition osext_Executable :: "env \<Rightarrow> world \<Rightarrow> (path \<times> string option) \<times> world" where
  "osext_Executable e w =
     (executable_result e,
      record_op (Executable (fst (executable_result e)) (snd (executable_result e))) w)"

text \<open>
  \<open>os.CreateTemp(dir, pattern)\<close> generates a name, opens it with
  \<open>O_RDWR|O_CREATE|O_EXCL\<close> and mode \<open>0600\<close>, and tries the next name when the file
  exists, at most 10000 times. The names it generates are the environment's
  (\<open>temp_names\<close>, or the error that rejects the pattern), and so is the error of an open
  that fails for another reason (\<open>open_err\<close>).
\<close>

definition ErrExist :: string where
  "ErrExist = ''file exists''"

fun try_names :: "env \<Rightarrow> (path \<rightharpoonup> regular_file) \<Rightarrow> path list \<Rightarrow> string + path" where
  "try_names e files [] = Inl ErrExist"
| "try_names e files (name # rest) =
     (if files name \<noteq> None then try_names e files rest
      else (case open_err e name of Some err \<Rightarrow> Inl err | None \<Rightarrow> Inr name))"

definition create_name :: "env \<Rightarrow> (path \<rightharpoonup> regular_file) \<Rightarrow> path \<Rightarrow> string \<Rightarrow> string + path" where
  "create_name e files dir pattern =
     (case temp_names e dir pattern of
        Inl err \<Rightarrow> Inl err
      | Inr names \<Rightarrow> try_names e files (take 10000 names))"

definition os_CreateTemp :: "env \<Rightarrow> path \<Rightarrow> string \<Rightarrow> world \<Rightarrow> (string + path) \<times> world" where
  "os_CreateTemp e dir pattern w =
     (let created = create_name e (fs w) dir pattern;
          w' = record_op (CreateTemp dir pattern created) w
      in case created of
           Inl err \<Rightarrow> (Inl err, w')
         | Inr name \<Rightarrow>
             (Inr name, w'\<lparr>fs := (fs w')(name \<mapsto> \<lparr>content = [], perm = 6 * 64\<rparr>)\<rparr>))"

definition write_file :: "path \<Rightarrow> byte list \<Rightarrow> world \<Rightarrow> world" where
  "write_file name bs w =
     (case fs w name of
        None \<Rightarrow> w
      | Some f \<Rightarrow> w\<lparr>fs := (fs w)(name \<mapsto> f\<lparr>content := bs\<rparr>)\<rparr>)"

text \<open>
  \<open>io.Copy(file, tarReader)\<close> writes the entry's bytes to the file until the entry ends.
  It stops at the first error: a write that fails once \<open>n\<close> bytes are in the file
  (\<open>write_fault\<close>), or the entry's read error after its data. \<open>copy_outcome\<close> is what
  it has written then, and the error it returns.
\<close>

definition copy_outcome :: "env \<Rightarrow> entry \<Rightarrow> byte list \<times> string option" where
  "copy_outcome e ent =
     (case write_fault e of
        Some (n, err) \<Rightarrow>
          (if n < length (data ent) then (take n (data ent), Some err)
           else (data ent, read_err ent))
      | None \<Rightarrow> (data ent, read_err ent))"

definition io_Copy :: "env \<Rightarrow> path \<Rightarrow> entry \<Rightarrow> world \<Rightarrow> string option \<times> world" where
  "io_Copy e name ent w =
     (case copy_outcome e ent of
        (written, err) \<Rightarrow> (err, record_op (Copy name err) (write_file name written w)))"

definition file_Chmod :: "env \<Rightarrow> path \<Rightarrow> 32 word \<Rightarrow> world \<Rightarrow> string option \<times> world" where
  "file_Chmod e name m w =
     (let w' = record_op (Chmod name m (chmod_err e name)) w in
      case chmod_err e name of
        Some err \<Rightarrow> (Some err, w')
      | None \<Rightarrow>
          (case fs w' name of
             None \<Rightarrow> (None, w')
           | Some f \<Rightarrow> (None, w'\<lparr>fs := (fs w')(name \<mapsto> f\<lparr>perm := m\<rparr>)\<rparr>)))"

text \<open>
  \<open>os.Rename(oldpath, newpath)\<close>: on success the file is at \<open>newpath\<close>, replacing what
  was there, and no longer at \<open>oldpath\<close>. It fails when the environment says so
  (\<open>rename_err\<close>) and when there is no file at \<open>oldpath\<close>.
\<close>

definition ENOENT :: string where
  "ENOENT = ''no such file or directory''"

definition os_Rename :: "env \<Rightarrow> path \<Rightarrow> path \<Rightarrow> world \<Rightarrow> string option \<times> world" where
  "os_Rename e oldpath newpath w =
     (case rename_err e oldpath newpath of
        Some err \<Rightarrow> (Some err, record_op (Rename oldpath newpath (Some err)) w)
      | None \<Rightarrow>
          (case fs w oldpath of
             None \<Rightarrow> (Some ENOENT, record_op (Rename oldpath newpath (Some ENOENT)) w)
           | Some f \<Rightarrow>
               (None,
                record_op (Rename oldpath newpath None)
                  (w\<lparr>fs := ((fs w)(oldpath := None))(newpath \<mapsto> f)\<rparr>))))"

subsection \<open>\<open>buildFilename\<close>\<close>

text \<open>
  \<open>fmt.Sprintf("%s-%s-%s-%s.tar.gz", info.AppName, version, runtime.GOOS, runtime.GOARCH)\<close>.
\<close>

definition buildFilename :: "env \<Rightarrow> string \<Rightarrow> infos \<Rightarrow> string" where
  "buildFilename e version info =
     AppName info @ ''-'' @ version @ ''-'' @ GOOS e @ ''-'' @ GOARCH e @ ''.tar.gz''"

subsection \<open>\<open>downloadBinary\<close>\<close>

text \<open>
  Lines 120 to 175, statement by statement. Every \<open>if err != nil\<close> returns
  \<open>DownloadError{Message: err.Error()}\<close>. The errors of \<open>gzip.NewReader\<close> (line 137) and
  of \<open>osext.Executable\<close> (line 149) are assigned to \<open>_\<close>. The three \<open>defer\<close>red closes
  run in the reverse order of their \<open>defer\<close> statements.
\<close>

definition downloadBinary :: "env \<Rightarrow> string \<Rightarrow> infos \<Rightarrow> world \<Rightarrow> error option exit \<times> world" where
  "downloadBinary e uri info w0 =
     (let w1 = Println '' -> Download...'' w0 in
      case http_NewRequestWithContext e uri w1 of
        (Some err, w2) \<Rightarrow> (Returned (Some (DownloadError err)), w2)
      | (None, w2) \<Rightarrow>
     (case client_Do e uri w2 of
        (Inl err, w3) \<Rightarrow> (Returned (Some (DownloadError err)), w3)
      | (Inr response, w3) \<Rightarrow>
     deferred (Close_call ResponseBody)
     (case gzip_NewReader response w3 of
        ((gzipReader, _), w4) \<Rightarrow>
     deferred (gzip_Close gzipReader)
     (let w5 = Println '' -> Extract...'' w4 in
      case tar_Next gzipReader w5 of
        (Panicked p, w6) \<Rightarrow> (Panicked p, w6)
      | (Returned (Inl err), w6) \<Rightarrow> (Returned (Some (DownloadError err)), w6)
      | (Returned (Inr ent), w6) \<Rightarrow>
     (case osext_Executable e w6 of
        ((currentExecutable, _), w7) \<Rightarrow>
     (let originalPath = path_Dir e currentExecutable in
      case os_CreateTemp e originalPath (AppName info) w7 of
        (Inl err, w8) \<Rightarrow> (Returned (Some (DownloadError err)), w8)
      | (Inr name, w8) \<Rightarrow>
     deferred (Close_call (TempFile name))
     (case io_Copy e name ent w8 of
        (Some err, w9) \<Rightarrow> (Returned (Some (DownloadError err)), w9)
      | (None, w9) \<Rightarrow>
     (case file_Chmod e name binaryChmodValue w9 of
        (Some err, w10) \<Rightarrow> (Returned (Some (DownloadError err)), w10)
      | (None, w10) \<Rightarrow>
     (case os_Rename e name currentExecutable w10 of
        (Some err, w11) \<Rightarrow> (Returned (Some (DownloadError err)), w11)
      | (None, w11) \<Rightarrow> (Returned None, w11))))))))))"

subsection \<open>\<open>Execute\<close>\<close>

text \<open>
  The loop over \<open>release.Assets\<close> (lines 93 to 100): the first asset whose name is the
  expected file name, \<open>None\<close> when the loop ends with \<open>found = false\<close>.
\<close>

fun find_asset :: "string \<Rightarrow> asset list \<Rightarrow> asset option" where
  "find_asset filename [] = None"
| "find_asset filename (a # rest) =
     (if Name a = filename then Some a else find_asset filename rest)"

definition up_to_date :: "infos \<Rightarrow> string" where
  "up_to_date info =
     ''Your '' @ AppName info @ '' is up-to-date. '' @ [CHR 0x5C] @ ''o/\<newline>''"

definition fresh_new :: "infos \<Rightarrow> string" where
  "fresh_new info =
     ''Now you have a fresh new '' @ AppName info @ '' '' @ [CHR 0x5C] @ ''o/\<newline>''"

text \<open>
  Lines 79 to 114. The third value of \<open>grc.Check\<close> is assigned to \<open>_\<close>. A panic of
  \<open>downloadBinary\<close> is not recovered: \<open>Execute\<close> panics with it.
\<close>

definition Execute :: "env \<Rightarrow> infos \<Rightarrow> world \<Rightarrow> unit exit \<times> world" where
  "Execute e info w =
     (case check_result e (AppRepoOwner info) (AppName info) (AppVersion info) of
        (hasUpdate, rel, _) \<Rightarrow>
          if \<not> hasUpdate then (Returned (), Print (up_to_date info) w)
          else
            (case find_asset (buildFilename e (TagName rel) info) (Assets rel) of
               None \<Rightarrow> (Returned (), Print (up_to_date info) w)
             | Some assetToDownload \<Rightarrow>
                 (case downloadBinary e (BrowserDownloadURL assetToDownload) info w of
                    (Panicked p, w') \<Rightarrow> (Panicked p, w')
                  | (Returned downloadError, w') \<Rightarrow>
                      (Returned (),
                       Print (fresh_new info)
                         (case downloadError of
                            None \<Rightarrow> w'
                          | Some err \<Rightarrow> Print (''Error: '' @ Error err @ ''\<newline>'') w')))))"

subsection \<open>Observing a run\<close>

text \<open>
  The calls a run has made are those its final trace holds after the trace it started
  with. \<open>failure\<close> is the error a call returned, if any; the value a \<open>Close\<close> returns is
  dropped by its \<open>defer\<close> statement.
\<close>

definition calls_between :: "world \<Rightarrow> world \<Rightarrow> op list" where
  "calls_between w w' = drop (length (trace w)) (trace w')"

fun failure :: "op \<Rightarrow> string option" where
  "failure (NewRequest uri r) = r"
| "failure (Do uri r) = r"
| "failure (NewReader r) = r"
| "failure (Next r) = r"
| "failure (Executable p r) = r"
| "failure (CreateTemp dir pattern r) = (case r of Inl err \<Rightarrow> Some err | Inr name \<Rightarrow> None)"
| "failure (Copy name r) = r"
| "failure (Chmod name m r) = r"
| "failure (Rename a b r) = r"
| "failure (Close h) = None"

fun is_Close :: "op \<Rightarrow> bool" where
  "is_Close (Close h) = True"
| "is_Close x = False"

text \<open>The two calls whose error \<open>downloadBinary\<close> assigns to \<open>_\<close>.\<close>

fun error_dropped :: "op \<Rightarrow> bool" where
  "error_dropped (NewReader r) = True"
| "error_dropped (Executable p r) = True"
| "error_dropped x = False"

subsection \<open>A concrete installation\<close>

text \<open>
  The app as \<open>main\<close> describes it, installed at \<open>/usr/bin/update\<close> on linux/amd64; a
  release \<open>v1.2.0\<close> with an asset for this platform, listed twice, after one for
  another platform; a server that sends an archive with one entry of three bytes; a
  temporary-name generator whose first name is taken; no call fails.
\<close>

definition main_infos :: infos where
  "main_infos = newInfos ''Heidelberger'' ''update'' ''v1.0.0''"

definition demo_release :: release where
  "demo_release =
     \<lparr>TagName = ''v1.2.0'',
      Assets =
        [\<lparr>Name = ''update-v1.2.0-darwin-arm64.tar.gz'', BrowserDownloadURL = ''https://host/darwin''\<rparr>,
         \<lparr>Name = ''update-v1.2.0-linux-amd64.tar.gz'', BrowserDownloadURL = ''https://host/linux''\<rparr>,
         \<lparr>Name = ''update-v1.2.0-linux-amd64.tar.gz'', BrowserDownloadURL = ''https://host/other''\<rparr>]\<rparr>"

definition demo_body :: body where
  "demo_body = GzipStream \<lparr>entries = [\<lparr>data = [1, 2, 3], read_err = None\<rparr>], ending = None\<rparr>"

definition demo_env :: env where
  "demo_env =
     \<lparr>GOOS = ''linux'', GOARCH = ''amd64'',
      check_result = (\<lambda>owner name ver. (True, demo_release, None)),
      request_err = (\<lambda>uri. None),
      do_result = (\<lambda>uri. Inr demo_body),
      executable_result = (''/usr/bin/update'', None),
      path_Dir = (\<lambda>p. ''/usr/bin''),
      temp_names = (\<lambda>dir pattern. Inr [''/usr/bin/update'', ''/usr/bin/update123'']),
      open_err = (\<lambda>name. None),
      write_fault = None,
      chmod_err = (\<lambda>name. None),
      rename_err = (\<lambda>a b. None)\<rparr>"

definition demo_world :: world where
  "demo_world =
     \<lparr>fs = [''/usr/bin/update'' \<mapsto> \<lparr>content = [7, 7], perm = 493\<rparr>],
      stdout = [], trace = []\<rparr>"

text \<open>
  Variants of it: the disk is full after two bytes; the archive has no entry; the body
  is not gzip; there is no newer release; the release has no asset for the platform;
  the path of the executable cannot be resolved (\<open>osext.Executable\<close> returns the empty
  path and an error, \<open>path.Dir\<close> of the empty path is \<open>.\<close>, and a rename onto the
  empty path fails).
\<close>

definition full_disk_env :: env where
  "full_disk_env = demo_env\<lparr>write_fault := Some (2, ''no space left on device'')\<rparr>"

definition empty_archive_env :: env where
  "empty_archive_env =
     demo_env\<lparr>do_result := \<lambda>uri. Inr (GzipStream \<lparr>entries = [], ending = None\<rparr>)\<rparr>"

definition bad_gzip_env :: env where
  "bad_gzip_env = demo_env\<lparr>do_result := \<lambda>uri. Inr (BadGzipHeader ''gzip: invalid header'')\<rparr>"

definition no_update_env :: env where
  "no_update_env = demo_env\<lparr>check_result := \<lambda>owner name ver. (False, demo_release, None)\<rparr>"

definition windows_env :: env where
  "windows_env = demo_env\<lparr>GOOS := ''windows''\<rparr>"

definition no_exe_env :: env where
  "no_exe_env =
     demo_env\<lparr>executable_result := ([], Some ''readlink /proc/self/exe: permission denied''),
       path_Dir := \<lambda>p. ''.'',
       temp_names := \<lambda>dir pattern. Inr [''./update123''],
       rename_err := \<lambda>a b. if b = [] then Some ''rename ./update123 : no such file or directory''
                         else None\<rparr>"

section \<open>Properties\<close>

subsection \<open>The runs of \<open>downloadBinary\<close>\<close>

lemmas run_defs = downloadBinary_def http_NewRequestWithContext_def client_Do_def
    gzip_NewReader_def gzip_Close_def tar_Next_def osext_Executable_def os_CreateTemp_def
    io_Copy_def write_file_def file_Chmod_def os_Rename_def deferred_def Close_call_def
    Println_def Print_def record_op_def Let_def

lemmas demo_defs = demo_env_def demo_world_def demo_body_def demo_release_def main_infos_def
    newInfos_def full_disk_env_def empty_archive_env_def bad_gzip_env_def no_update_env_def
    windows_env_def no_exe_env_def create_name_def copy_outcome_def calls_between_def
    buildFilename_def

text \<open>
  A name \<open>os.CreateTemp\<close> creates is the name of no file that was there.
\<close>

lemma try_names_fresh:
  "try_names e files names = Inr name \<Longrightarrow> files name = None \<and> name \<in> set names"
  by (induction names) (auto split: if_splits option.splits)

lemma create_name_fresh:
  "create_name e files dir pattern = Inr name \<Longrightarrow> files name = None"
  by (auto simp: create_name_def split: sum.splits dest: try_names_fresh)

text \<open>
  Every run of \<open>downloadBinary\<close> is one of nine: it stops at the first call whose error
  it checks, it panics when \<open>gzip.NewReader\<close> rejected the header, or it succeeds.
\<close>

lemma downloadBinary_run:
  assumes "downloadBinary e uri info w = (r, w')"
  obtains
    (request) err where
      "request_err e uri = Some err"
      "r = Returned (Some (DownloadError err))"
      "w' = w\<lparr>stdout := stdout w @ ['' -> Download...\<newline>''],
              trace := trace w @ [NewRequest uri (Some err)]\<rparr>"
  | (get) err where
      "request_err e uri = None" "do_result e uri = Inl err"
      "r = Returned (Some (DownloadError err))"
      "w' = w\<lparr>stdout := stdout w @ ['' -> Download...\<newline>''],
              trace := trace w @ [NewRequest uri None, Do uri (Some err)]\<rparr>"
  | (gzip) err where
      "request_err e uri = None" "do_result e uri = Inr (BadGzipHeader err)"
      "r = Panicked nil_dereference"
      "w' = w\<lparr>stdout := stdout w @ ['' -> Download...\<newline>'', '' -> Extract...\<newline>''],
              trace := trace w @ [NewRequest uri None, Do uri None, NewReader (Some err),
                Close ResponseBody]\<rparr>"
  | (tarNext) s err where
      "request_err e uri = None" "do_result e uri = Inr (GzipStream s)"
      "entries s = []" "err = (case ending s of None \<Rightarrow> ''EOF'' | Some x \<Rightarrow> x)"
      "r = Returned (Some (DownloadError err))"
      "w' = w\<lparr>stdout := stdout w @ ['' -> Download...\<newline>'', '' -> Extract...\<newline>''],
              trace := trace w @ [NewRequest uri None, Do uri None, NewReader None,
                Next (Some err), Close GzipReader, Close ResponseBody]\<rparr>"
  | (createTemp) s ent rest exe xerr err where
      "request_err e uri = None" "do_result e uri = Inr (GzipStream s)"
      "entries s = ent # rest" "executable_result e = (exe, xerr)"
      "create_name e (fs w) (path_Dir e exe) (AppName info) = Inl err"
      "r = Returned (Some (DownloadError err))"
      "w' = w\<lparr>stdout := stdout w @ ['' -> Download...\<newline>'', '' -> Extract...\<newline>''],
              trace := trace w @ [NewRequest uri None, Do uri None, NewReader None,
                Next None, Executable exe xerr,
                CreateTemp (path_Dir e exe) (AppName info) (Inl err),
                Close GzipReader, Close ResponseBody]\<rparr>"
  | (copy) s ent rest exe xerr name written err where
      "request_err e uri = None" "do_result e uri = Inr (GzipStream s)"
      "entries s = ent # rest" "executable_result e = (exe, xerr)"
      "create_name e (fs w) (path_Dir e exe) (AppName info) = Inr name" "fs w name = None"
      "copy_outcome e ent = (written, Some err)"
      "r = Returned (Some (DownloadError err))"
      "w' = w\<lparr>fs := (fs w)(name \<mapsto> \<lparr>content = written, perm = 6 * 64\<rparr>),
              stdout := stdout w @ ['' -> Download...\<newline>'', '' -> Extract...\<newline>''],
              trace := trace w @ [NewRequest uri None, Do uri None, NewReader None,
                Next None, Executable exe xerr,
                CreateTemp (path_Dir e exe) (AppName info) (Inr name),
                Copy name (Some err),
                Close (TempFile name), Close GzipReader, Close ResponseBody]\<rparr>"
  | (chmod) s ent rest exe xerr name written err where
      "request_err e uri = None" "do_result e uri = Inr (GzipStream s)"
      "entries s = ent # rest" "executable_result e = (exe, xerr)"
      "create_name e (fs w) (path_Dir e exe) (AppName info) = Inr name" "fs w name = None"
      "copy_outcome e ent = (written, None)"
      "chmod_err e name = Some err"
      "r = Returned (Some (DownloadError err))"
      "w' = w\<lparr>fs := (fs w)(name \<mapsto> \<lparr>content = written, perm = 6 * 64\<rparr>),
              stdout := stdout w @ ['' -> Download...\<newline>'', '' -> Extract...\<newline>''],
              trace := trace w @ [NewRequest uri None, Do uri None, NewReader None,
                Next None, Executable exe xerr,
                CreateTemp (path_Dir e exe) (AppName info) (Inr name),
                Copy name None, Chmod name binaryChmodValue (Some err),
                Close (TempFile name), Close GzipReader, Close ResponseBody]\<rparr>"
  | (rename) s ent rest exe xerr name written err where
      "request_err e uri = None" "do_result e uri = Inr (GzipStream s)"
      "entries s = ent # rest" "executable_result e = (exe, xerr)"
      "create_name e (fs w) (path_Dir e exe) (AppName info) = Inr name" "fs w name = None"
      "copy_outcome e ent = (written, None)"
      "chmod_err e name = None" "rename_err e name exe = Some err"
      "r = Returned (Some (DownloadError err))"
      "w' = w\<lparr>fs := (fs w)(name \<mapsto> \<lparr>content = written, perm = binaryChmodValue\<rparr>),
              stdout := stdout w @ ['' -> Download...\<newline>'', '' -> Extract...\<newline>''],
              trace := trace w @ [NewRequest uri None, Do uri None, NewReader None,
                Next None, Executable exe xerr,
                CreateTemp (path_Dir e exe) (AppName info) (Inr name),
                Copy name None, Chmod name binaryChmodValue None,
                Rename name exe (Some err),
                Close (TempFile name), Close GzipReader, Close ResponseBody]\<rparr>"
  | (success) s ent rest exe xerr name written where
      "request_err e uri = None" "do_result e uri = Inr (GzipStream s)"
      "entries s = ent # rest" "executable_result e = (exe, xerr)"
      "create_name e (fs w) (path_Dir e exe) (AppName info) = Inr name" "fs w name = None"
      "copy_outcome e ent = (written, None)"
      "chmod_err e name = None" "rename_err e name exe = None"
      "r = Returned None"
      "w' = w\<lparr>fs := ((fs w)(name := None))(exe \<mapsto> \<lparr>content = written, perm = binaryChmodValue\<rparr>),
              stdout := stdout w @ ['' -> Download...\<newline>'', '' -> Extract...\<newline>''],
              trace := trace w @ [NewRequest uri None, Do uri None, NewReader None,
                Next None, Executable exe xerr,
                CreateTemp (path_Dir e exe) (AppName info) (Inr name),
                Copy name None, Chmod name binaryChmodValue None,
                Rename name exe None,
                Close (TempFile name), Close GzipReader, Close ResponseBody]\<rparr>"
proof -
  note defs = run_defs
  show thesis
  proof (cases "request_err e uri")
    case (Some err)
    with assms show thesis
      by (intro request [of err]) (auto simp: defs)
  next
    case req: None
    show thesis
    proof (cases "do_result e uri")
      case (Inl err)
      with assms req show thesis
        by (intro get [of err]) (auto simp: defs)
    next
      case (Inr response)
      show thesis
      proof (cases response)
        case (BadGzipHeader err)
        with assms req Inr show thesis
          by (intro gzip [of err]) (auto simp: defs)
      next
        case (GzipStream s)
        note resp = Inr [unfolded GzipStream]
        show thesis
        proof (cases "entries s")
          case Nil
          with assms req resp show thesis
            by (intro tarNext [of s]) (auto simp: defs)
        next
          case (Cons ent rest)
          obtain exe xerr where ex: "executable_result e = (exe, xerr)"
            by (cases "executable_result e")
          show thesis
          proof (cases "create_name e (fs w) (path_Dir e exe) (AppName info)")
            case (Inl err)
            with assms req resp Cons ex show thesis
              by (intro createTemp [of s ent rest exe xerr err]) (auto simp: defs)
          next
            case (Inr name)
            have fresh: "fs w name = None"
              using Inr by (rule create_name_fresh)
            obtain written cerr where co: "copy_outcome e ent = (written, cerr)"
              by (cases "copy_outcome e ent")
            show thesis
            proof (cases cerr)
              case (Some err)
              with assms req resp Cons ex Inr fresh co show thesis
                by (intro copy [of s ent rest exe xerr name written err]) (auto simp: defs)
            next
              case cp: None
              show thesis
              proof (cases "chmod_err e name")
                case (Some err)
                with assms req resp Cons ex Inr fresh co cp show thesis
                  by (intro chmod [of s ent rest exe xerr name written err]) (auto simp: defs)
              next
                case ch: None
                show thesis
                proof (cases "rename_err e name exe")
                  case (Some err)
                  with assms req resp Cons ex Inr fresh co cp ch show thesis
                    by (intro rename [of s ent rest exe xerr name written err])
                      (auto simp: defs)
                next
                  case None
                  with assms req resp Cons ex Inr fresh co cp ch show thesis
                    by (intro success [of s ent rest exe xerr name written])
                      (auto simp: defs)
                qed
              qed
            qed
          qed
        qed
      qed
    qed
  qed
qed


text \<open>
  A rename is the call after a successful \<open>Chmod\<close> of the file it moves, which is the
  call after a successful copy into that file.
\<close>

lemma rename_after_copy_chmod:
  assumes "downloadBinary e uri info w = (r, w')"
    and "Rename a b x \<in> set (calls_between w w')"
  shows "\<exists>pre post. calls_between w w' =
      pre @ [Copy a None, Chmod a binaryChmodValue None, Rename a b x] @ post"
  using assms
proof (cases rule: downloadBinary_run)
  case (rename s ent rest exe xerr name written err)
  with assms(2) have eq: "a = name" "b = exe" "x = Some err"
    by (auto simp: calls_between_def)
  show ?thesis
    unfolding rename(11) eq calls_between_def
    by (intro exI [of _ "[NewRequest uri None, Do uri None, NewReader None, Next None,
          Executable exe xerr, CreateTemp (path_Dir e exe) (AppName info) (Inr name)]"]
        exI [of _ "[Close (TempFile name), Close GzipReader, Close ResponseBody]"]) simp
next
  case (success s ent rest exe xerr name written)
  with assms(2) have eq: "a = name" "b = exe" "x = None"
    by (auto simp: calls_between_def)
  show ?thesis
    unfolding success(11) eq calls_between_def
    by (intro exI [of _ "[NewRequest uri None, Do uri None, NewReader None, Next None,
          Executable exe xerr, CreateTemp (path_Dir e exe) (AppName info) (Inr name)]"]
        exI [of _ "[Close (TempFile name), Close GzipReader, Close ResponseBody]"]) simp
qed (use assms(2) in \<open>auto simp: calls_between_def\<close>)

text \<open>The loop over the assets finds the first asset of the name, if there is one.\<close>

lemma find_asset_None: "find_asset fn as = None \<longleftrightarrow> (\<forall>b\<in>set as. Name b \<noteq> fn)"
  by (induction as) auto

lemma find_asset_Some:
  "find_asset fn as = Some a \<longleftrightarrow>
     (\<exists>pre post. as = pre @ a # post \<and> Name a = fn \<and> (\<forall>b\<in>set pre. Name b \<noteq> fn))"
proof (induction as)
  case Nil
  then show ?case by simp
next
  case (Cons c as)
  show ?case
  proof (cases "Name c = fn")
    case True
    have "(\<exists>pre post. c # as = pre @ a # post \<and> Name a = fn \<and> (\<forall>b\<in>set pre. Name b \<noteq> fn))
        \<longleftrightarrow> a = c"
    proof
      assume "\<exists>pre post. c # as = pre @ a # post \<and> Name a = fn \<and> (\<forall>b\<in>set pre. Name b \<noteq> fn)"
      then obtain pre post where *: "c # as = pre @ a # post" "\<forall>b\<in>set pre. Name b \<noteq> fn"
        by blast
      show "a = c"
      proof (cases pre)
        case Nil
        with * show ?thesis by simp
      next
        case (Cons d pre')
        with * True show ?thesis by auto
      qed
    next
      assume "a = c"
      with True have "c # as = [] @ a # as \<and> Name a = fn \<and> (\<forall>b\<in>set []. Name b \<noteq> fn)"
        by simp
      then show "\<exists>pre post. c # as = pre @ a # post \<and> Name a = fn \<and> (\<forall>b\<in>set pre. Name b \<noteq> fn)"
        by blast
    qed
    with True show ?thesis by auto
  next
    case False
    have "(\<exists>pre post. c # as = pre @ a # post \<and> Name a = fn \<and> (\<forall>b\<in>set pre. Name b \<noteq> fn))
        \<longleftrightarrow> (\<exists>pre post. as = pre @ a # post \<and> Name a = fn \<and> (\<forall>b\<in>set pre. Name b \<noteq> fn))"
    proof
      assume "\<exists>pre post. c # as = pre @ a # post \<and> Name a = fn \<and> (\<forall>b\<in>set pre. Name b \<noteq> fn)"
      then obtain pre post where *: "c # as = pre @ a # post" "Name a = fn"
        "\<forall>b\<in>set pre. Name b \<noteq> fn"
        by blast
      show "\<exists>pre post. as = pre @ a # post \<and> Name a = fn \<and> (\<forall>b\<in>set pre. Name b \<noteq> fn)"
      proof (cases pre)
        case Nil
        with * False show ?thesis by simp
      next
        case (Cons d pre')
        with * have "as = pre' @ a # post \<and> Name a = fn \<and> (\<forall>b\<in>set pre'. Name b \<noteq> fn)"
          by simp
        then show ?thesis by blast
      qed
    next
      assume "\<exists>pre post. as = pre @ a # post \<and> Name a = fn \<and> (\<forall>b\<in>set pre. Name b \<noteq> fn)"
      then obtain pre post where "as = pre @ a # post" "Name a = fn"
        "\<forall>b\<in>set pre. Name b \<noteq> fn"
        by blast
      with False have "c # as = (c # pre) @ a # post \<and> Name a = fn
          \<and> (\<forall>b\<in>set (c # pre). Name b \<noteq> fn)"
        by simp
      then show "\<exists>pre post. c # as = pre @ a # post \<and> Name a = fn \<and> (\<forall>b\<in>set pre. Name b \<noteq> fn)"
        by blast
    qed
    with False Cons.IH show ?thesis by simp
  qed
qed

lemma downloadBinary_requests_uri:
  assumes "downloadBinary e uri info w = (r, w')"
  shows "NewRequest uri (request_err e uri) \<in> set (calls_between w w')
    \<and> (\<forall>u x. NewRequest u x \<in> set (calls_between w w') \<longrightarrow> u = uri)"
  using assms by (cases rule: downloadBinary_run) (auto simp: calls_between_def)

text \<open>
  What \<open>osext.Executable\<close> returns as its error changes neither what \<open>downloadBinary\<close>
  returns nor the files nor the output.
\<close>

lemma try_names_env:
  "try_names (e\<lparr>executable_result := x\<rparr>) files names = try_names e files names"
  by (induction names) auto

lemma create_name_env:
  "create_name (e\<lparr>executable_result := x\<rparr>) files dir pattern = create_name e files dir pattern"
  by (simp add: create_name_def try_names_env split: sum.splits)

lemma copy_outcome_env:
  "copy_outcome (e\<lparr>executable_result := x\<rparr>) ent = copy_outcome e ent"
  by (simp add: copy_outcome_def)

lemma executable_error_unused:
  assumes run: "downloadBinary e uri info w = (r, w')"
    and run': "downloadBinary (e\<lparr>executable_result := (exe, None)\<rparr>) uri info w = (r', w'')"
    and ex: "executable_result e = (exe, xerr)"
  shows "r' = r \<and> fs w'' = fs w' \<and> stdout w'' = stdout w'"
  by (cases rule: downloadBinary_run [OF run]; cases rule: downloadBinary_run [OF run'])
    (use ex in \<open>simp_all add: create_name_env copy_outcome_env\<close>)

text \<open>
  When \<open>downloadBinary\<close> returns, \<open>Execute\<close> prints the error, if there is one, and
  then the line of success.
\<close>

lemma Execute_after_download:
  assumes "check_result e (AppRepoOwner info) (AppName info) (AppVersion info) = (True, rel, cerr)"
    and "find_asset (buildFilename e (TagName rel) info) (Assets rel) = Some a"
    and "downloadBinary e (BrowserDownloadURL a) info w = (Returned d, w')"
  shows "Execute e info w =
     (Returned (),
      w'\<lparr>stdout := stdout w'
         @ (case d of None \<Rightarrow> [] | Some err \<Rightarrow> [''Error: '' @ Error err @ ''\<newline>''])
         @ [fresh_new info]\<rparr>)"
  using assms by (simp add: Execute_def Print_def split: option.splits)

subsection \<open>Properties of the specification\<close>

text \<open>
  C1. In every run of \<open>downloadBinary\<close> in which the copy into the temporary file
  returns an error, \<open>downloadBinary\<close> returns that error as a \<open>DownloadError\<close>,
  \<open>os.Rename\<close> is not called, and every file that was there before the run, the
  executable among them, is there after it with the same content and mode. In every run,
  a call of \<open>os.Rename\<close> comes after a copy into the renamed file that returned no error.
\<close>

theorem copy_failure_keeps_executable:
  assumes "downloadBinary e uri info w = (r, w')"
  shows "(Copy name (Some err) \<in> set (calls_between w w') \<longrightarrow>
            r = Returned (Some (DownloadError err))
          \<and> (\<forall>a b x. Rename a b x \<notin> set (calls_between w w'))
          \<and> (\<forall>p f. fs w p = Some f \<longrightarrow> fs w' p = Some f))
       \<and> (Rename a b x \<in> set (calls_between w w') \<longrightarrow>
            (\<exists>pre post. calls_between w w' = pre @ Copy a None # post
               \<and> Rename a b x \<in> set post))"
proof (intro conjI impI)
  assume failed: "Copy name (Some err) \<in> set (calls_between w w')"
  with assms show "r = Returned (Some (DownloadError err))"
    by (cases rule: downloadBinary_run) (auto simp: calls_between_def)
  from assms failed show "\<forall>a b x. Rename a b x \<notin> set (calls_between w w')"
    by (cases rule: downloadBinary_run) (auto simp: calls_between_def)
  from assms failed show "\<forall>p f. fs w p = Some f \<longrightarrow> fs w' p = Some f"
    by (cases rule: downloadBinary_run) (auto simp: calls_between_def)
next
  assume "Rename a b x \<in> set (calls_between w w')"
  from rename_after_copy_chmod [OF assms this]
  obtain pre post where
    "calls_between w w' = pre @ [Copy a None, Chmod a binaryChmodValue None, Rename a b x] @ post"
    by blast
  then have "calls_between w w'
        = pre @ Copy a None # ([Chmod a binaryChmodValue None, Rename a b x] @ post)
      \<and> Rename a b x \<in> set ([Chmod a binaryChmodValue None, Rename a b x] @ post)"
    by simp
  then show "\<exists>pre post. calls_between w w' = pre @ Copy a None # post \<and> Rename a b x \<in> set post"
    by blast
qed

theorem copy_failure_keeps_executable_witness:
  "Copy ''/usr/bin/update123'' (Some ''no space left on device'')
     \<in> set (calls_between demo_world
         (snd (downloadBinary full_disk_env ''https://host/linux'' main_infos demo_world)))
   \<and> fst (downloadBinary full_disk_env ''https://host/linux'' main_infos demo_world)
       = Returned (Some (DownloadError ''no space left on device''))
   \<and> fs (snd (downloadBinary full_disk_env ''https://host/linux'' main_infos demo_world))
        ''/usr/bin/update''
       = Some \<lparr>content = [7, 7], perm = 493\<rparr>
   \<and> fs (snd (downloadBinary full_disk_env ''https://host/linux'' main_infos demo_world))
        ''/usr/bin/update123''
       = Some \<lparr>content = [1, 2], perm = 384\<rparr>
   \<and> Rename ''/usr/bin/update123'' ''/usr/bin/update'' None
     \<in> set (calls_between demo_world
         (snd (downloadBinary demo_env ''https://host/linux'' main_infos demo_world)))
   \<and> (\<exists>pre post.
         calls_between demo_world
           (snd (downloadBinary demo_env ''https://host/linux'' main_infos demo_world))
         = pre @ Copy ''/usr/bin/update123'' None # post
       \<and> Rename ''/usr/bin/update123'' ''/usr/bin/update'' None \<in> set post)"
proof -
  let ?fail = "downloadBinary full_disk_env ''https://host/linux'' main_infos demo_world"
  let ?good = "downloadBinary demo_env ''https://host/linux'' main_infos demo_world"
  have failed: "Copy ''/usr/bin/update123'' (Some ''no space left on device'')
      \<in> set (calls_between demo_world (snd ?fail))"
    by (simp add: run_defs demo_defs)
  have partial: "fs (snd ?fail) ''/usr/bin/update123'' = Some \<lparr>content = [1, 2], perm = 384\<rparr>"
    by (simp add: run_defs demo_defs)
  have before: "fs demo_world ''/usr/bin/update'' = Some \<lparr>content = [7, 7], perm = 493\<rparr>"
    by (simp add: demo_defs)
  have renamed: "Rename ''/usr/bin/update123'' ''/usr/bin/update'' None
      \<in> set (calls_between demo_world (snd ?good))"
    by (simp add: run_defs demo_defs)
  from copy_failure_keeps_executable [of full_disk_env "''https://host/linux''" main_infos
      demo_world "fst ?fail" "snd ?fail" "''/usr/bin/update123''" "''no space left on device''"]
    copy_failure_keeps_executable [of demo_env "''https://host/linux''" main_infos
      demo_world "fst ?good" "snd ?good" _ _ "''/usr/bin/update123''" "''/usr/bin/update''" None]
    failed partial before renamed
  show ?thesis by simp
qed

text \<open>
  C2, as amended. The specification lists nine stages and says that a failure at any of
  them is returned at once as a \<open>DownloadError\<close>, and that \<open>downloadBinary\<close> never
  panics. Two
  of the nine calls have their error assigned to \<open>_\<close>: \<open>gzip.NewReader\<close> and
  \<open>osext.Executable\<close>. For the other seven (request construction, the GET,
  \<open>tarReader.Next()\<close>, \<open>os.CreateTemp\<close>, the copy, \<open>Chmod\<close>, \<open>os.Rename\<close>) it
  holds: in every run, when one of them returns an error, \<open>downloadBinary\<close> returns that
  error as a \<open>DownloadError\<close>, and the calls after the failed one are the deferred
  closes only. A run in which \<open>gzip.NewReader\<close> returns no error does not panic. An
  error \<open>downloadBinary\<close> returns is always a \<open>DownloadError\<close> carrying the error of one
  of the seven calls. After an error of \<open>osext.Executable\<close> the run goes on to
  \<open>os.CreateTemp\<close>.
\<close>

theorem checked_failure_is_returned:
  assumes "downloadBinary e uri info w = (r, w')"
  shows "(c \<in> set (calls_between w w') \<and> failure c = Some err \<and> \<not> error_dropped c \<longrightarrow>
            r = Returned (Some (DownloadError err))
          \<and> (\<exists>pre post. calls_between w w' = pre @ c # post \<and> list_all is_Close post))
       \<and> ((\<forall>x. NewReader (Some x) \<notin> set (calls_between w w')) \<longrightarrow> (\<exists>d. r = Returned d))
       \<and> (r = Returned (Some d) \<longrightarrow>
            (\<exists>c err. c \<in> set (calls_between w w') \<and> failure c = Some err
               \<and> \<not> error_dropped c \<and> d = DownloadError err))
       \<and> (Executable exe (Some xerr) \<in> set (calls_between w w') \<longrightarrow>
            (\<exists>x. CreateTemp (path_Dir e exe) (AppName info) x \<in> set (calls_between w w')))"
proof (intro conjI impI)
  assume c: "c \<in> set (calls_between w w') \<and> failure c = Some err \<and> \<not> error_dropped c"
  with assms show "r = Returned (Some (DownloadError err))"
    by (cases rule: downloadBinary_run) (auto simp: calls_between_def)
  from assms c show "\<exists>pre post. calls_between w w' = pre @ c # post \<and> list_all is_Close post"
  proof (cases rule: downloadBinary_run)
    case (request err')
    with c have "c = NewRequest uri (Some err')"
      by (auto simp: calls_between_def)
    with request(3) have "calls_between w w' = [] @ c # [] \<and> list_all is_Close []"
      by (simp add: calls_between_def)
    then show ?thesis by blast
  next
    case (get err')
    with c have "c = Do uri (Some err')"
      by (auto simp: calls_between_def)
    with get(4) have "calls_between w w' = [NewRequest uri None] @ c # []
        \<and> list_all is_Close []"
      by (simp add: calls_between_def)
    then show ?thesis by blast
  next
    case (tarNext s err')
    with c have "c = Next (Some err')"
      by (auto simp: calls_between_def)
    with tarNext(6) have "calls_between w w'
          = [NewRequest uri None, Do uri None, NewReader None] @ c
            # [Close GzipReader, Close ResponseBody]
        \<and> list_all is_Close [Close GzipReader, Close ResponseBody]"
      by (simp add: calls_between_def)
    then show ?thesis by blast
  next
    case (createTemp s ent rest exe' xerr' err')
    with c have "c = CreateTemp (path_Dir e exe') (AppName info) (Inl err')"
      by (auto simp: calls_between_def)
    with createTemp(7) have "calls_between w w'
          = [NewRequest uri None, Do uri None, NewReader None, Next None, Executable exe' xerr']
            @ c # [Close GzipReader, Close ResponseBody]
        \<and> list_all is_Close [Close GzipReader, Close ResponseBody]"
      by (simp add: calls_between_def)
    then show ?thesis by blast
  next
    case (copy s ent rest exe' xerr' name written err')
    with c have "c = Copy name (Some err')"
      by (auto simp: calls_between_def)
    with copy(9) have "calls_between w w'
          = [NewRequest uri None, Do uri None, NewReader None, Next None, Executable exe' xerr',
             CreateTemp (path_Dir e exe') (AppName info) (Inr name)]
            @ c # [Close (TempFile name), Close GzipReader, Close ResponseBody]
        \<and> list_all is_Close [Close (TempFile name), Close GzipReader, Close ResponseBody]"
      by (simp add: calls_between_def)
    then show ?thesis by blast
  next
    case (chmod s ent rest exe' xerr' name written err')
    with c have "c = Chmod name binaryChmodValue (Some err')"
      by (auto simp: calls_between_def)
    with chmod(10) have "calls_between w w'
          = [NewRequest uri None, Do uri None, NewReader None, Next None, Executable exe' xerr',
             CreateTemp (path_Dir e exe') (AppName info) (Inr name), Copy name None]
            @ c # [Close (TempFile name), Close GzipReader, Close ResponseBody]
        \<and> list_all is_Close [Close (TempFile name), Close GzipReader, Close ResponseBody]"
      by (simp add: calls_between_def)
    then show ?thesis by blast
  next
    case (rename s ent rest exe' xerr' name written err')
    with c have "c = Rename name exe' (Some err')"
      by (auto simp: calls_between_def)
    with rename(11) have "calls_between w w'
          = [NewRequest uri None, Do uri None, NewReader None, Next None, Executable exe' xerr',
             CreateTemp (path_Dir e exe') (AppName info) (Inr name), Copy name None,
             Chmod name binaryChmodValue None]
            @ c # [Close (TempFile name), Close GzipReader, Close ResponseBody]
        \<and> list_all is_Close [Close (TempFile name), Close GzipReader, Close ResponseBody]"
      by (simp add: calls_between_def)
    then show ?thesis by blast
  qed (auto simp: calls_between_def)
next
  assume "\<forall>x. NewReader (Some x) \<notin> set (calls_between w w')"
  with assms show "\<exists>d. r = Returned d"
    by (cases rule: downloadBinary_run) (auto simp: calls_between_def)
next
  assume "r = Returned (Some d)"
  with assms show "\<exists>c err. c \<in> set (calls_between w w') \<and> failure c = Some err
      \<and> \<not> error_dropped c \<and> d = DownloadError err"
  proof (cases rule: downloadBinary_run)
    case (request err')
    with \<open>r = Returned (Some d)\<close>
    have "NewRequest uri (Some err') \<in> set (calls_between w w')
        \<and> failure (NewRequest uri (Some err')) = Some err'
        \<and> \<not> error_dropped (NewRequest uri (Some err')) \<and> d = DownloadError err'"
      by (simp add: calls_between_def)
    then show ?thesis by blast
  next
    case (get err')
    with \<open>r = Returned (Some d)\<close>
    have "Do uri (Some err') \<in> set (calls_between w w')
        \<and> failure (Do uri (Some err')) = Some err'
        \<and> \<not> error_dropped (Do uri (Some err')) \<and> d = DownloadError err'"
      by (simp add: calls_between_def)
    then show ?thesis by blast
  next
    case (tarNext s err')
    with \<open>r = Returned (Some d)\<close>
    have "Next (Some err') \<in> set (calls_between w w')
        \<and> failure (Next (Some err')) = Some err'
        \<and> \<not> error_dropped (Next (Some err')) \<and> d = DownloadError err'"
      by (simp add: calls_between_def)
    then show ?thesis by blast
  next
    case (createTemp s ent rest exe' xerr' err')
    let ?c = "CreateTemp (path_Dir e exe') (AppName info) (Inl err')"
    from createTemp \<open>r = Returned (Some d)\<close>
    have "?c \<in> set (calls_between w w') \<and> failure ?c = Some err'
        \<and> \<not> error_dropped ?c \<and> d = DownloadError err'"
      by (simp add: calls_between_def)
    then show ?thesis by blast
  next
    case (copy s ent rest exe' xerr' name written err')
    with \<open>r = Returned (Some d)\<close>
    have "Copy name (Some err') \<in> set (calls_between w w')
        \<and> failure (Copy name (Some err')) = Some err'
        \<and> \<not> error_dropped (Copy name (Some err')) \<and> d = DownloadError err'"
      by (simp add: calls_between_def)
    then show ?thesis by blast
  next
    case (chmod s ent rest exe' xerr' name written err')
    let ?c = "Chmod name binaryChmodValue (Some err')"
    from chmod \<open>r = Returned (Some d)\<close>
    have "?c \<in> set (calls_between w w') \<and> failure ?c = Some err'
        \<and> \<not> error_dropped ?c \<and> d = DownloadError err'"
      by (simp add: calls_between_def)
    then show ?thesis by blast
  next
    case (rename s ent rest exe' xerr' name written err')
    let ?c = "Rename name exe' (Some err')"
    from rename \<open>r = Returned (Some d)\<close>
    have "?c \<in> set (calls_between w w') \<and> failure ?c = Some err'
        \<and> \<not> error_dropped ?c \<and> d = DownloadError err'"
      by (simp add: calls_between_def)
    then show ?thesis by blast
  qed simp_all
next
  assume "Executable exe (Some xerr) \<in> set (calls_between w w')"
  with assms show "\<exists>x. CreateTemp (path_Dir e exe) (AppName info) x \<in> set (calls_between w w')"
    by (cases rule: downloadBinary_run) (auto simp: calls_between_def)
qed

theorem checked_failure_is_returned_witness:
  "Copy ''/usr/bin/update123'' (Some ''no space left on device'')
     \<in> set (calls_between demo_world
         (snd (downloadBinary full_disk_env ''https://host/linux'' main_infos demo_world)))
   \<and> failure (Copy ''/usr/bin/update123'' (Some ''no space left on device''))
       = Some ''no space left on device''
   \<and> \<not> error_dropped (Copy ''/usr/bin/update123'' (Some ''no space left on device''))
   \<and> fst (downloadBinary full_disk_env ''https://host/linux'' main_infos demo_world)
       = Returned (Some (DownloadError ''no space left on device''))
   \<and> (\<exists>pre post.
         calls_between demo_world
           (snd (downloadBinary full_disk_env ''https://host/linux'' main_infos demo_world))
         = pre @ Copy ''/usr/bin/update123'' (Some ''no space left on device'') # post
       \<and> list_all is_Close post)"
proof -
  let ?run = "downloadBinary full_disk_env ''https://host/linux'' main_infos demo_world"
  let ?c = "Copy ''/usr/bin/update123'' (Some ''no space left on device'')"
  have failed: "?c \<in> set (calls_between demo_world (snd ?run))
      \<and> failure ?c = Some ''no space left on device'' \<and> \<not> error_dropped ?c"
    by (simp add: run_defs demo_defs)
  from checked_failure_is_returned [OF surjective_pairing, THEN conjunct1, THEN mp, OF failed]
    failed
  show ?thesis by blast
qed

text \<open>
  As the specification states it, the property fails at the two calls whose error is
  dropped. A body that is not
  gzip makes \<open>downloadBinary\<close> panic. An error of \<open>osext.Executable\<close> is not returned:
  four more calls are made, and the error returned is that of \<open>os.Rename\<close>.
\<close>

theorem dropped_errors_counterexample:
  "fst (downloadBinary bad_gzip_env ''https://host/linux'' main_infos demo_world)
     = Panicked nil_dereference
   \<and> calls_between demo_world
       (snd (downloadBinary bad_gzip_env ''https://host/linux'' main_infos demo_world))
     = [NewRequest ''https://host/linux'' None, Do ''https://host/linux'' None,
        NewReader (Some ''gzip: invalid header''), Close ResponseBody]
   \<and> fst (downloadBinary no_exe_env ''https://host/linux'' main_infos demo_world)
     = Returned (Some (DownloadError ''rename ./update123 : no such file or directory''))
   \<and> calls_between demo_world
       (snd (downloadBinary no_exe_env ''https://host/linux'' main_infos demo_world))
     = [NewRequest ''https://host/linux'' None, Do ''https://host/linux'' None, NewReader None,
        Next None, Executable [] (Some ''readlink /proc/self/exe: permission denied''),
        CreateTemp ''.'' ''update'' (Inr ''./update123''),
        Copy ''./update123'' None, Chmod ''./update123'' 493 None,
        Rename ''./update123'' [] (Some ''rename ./update123 : no such file or directory''),
        Close (TempFile ''./update123''), Close GzipReader, Close ResponseBody]"
  by (simp add: run_defs demo_defs binaryChmodValue_def)

text \<open>
  C3. The specification says that \<open>Execute\<close> prints the line of success on every path that reaches
  the download, whatever its outcome. Whenever \<open>downloadBinary\<close> returns, it does
  (\<open>Execute_after_download\<close>: the error line first, if there is an error). But
  \<open>downloadBinary\<close> panics when \<open>gzip.NewReader\<close> rejects the response body (see C9), and
  \<open>Execute\<close> does not recover: for every such response to the request for the selected
  asset, \<open>Execute\<close> panics, having printed the two progress lines of \<open>downloadBinary\<close>
  and neither an error line nor the line of success.
\<close>

theorem Execute_panics_before_success_message:
  assumes "check_result e (AppRepoOwner info) (AppName info) (AppVersion info) = (True, rel, cerr)"
    and "find_asset (buildFilename e (TagName rel) info) (Assets rel) = Some a"
    and "request_err e (BrowserDownloadURL a) = None"
    and "do_result e (BrowserDownloadURL a) = Inr (BadGzipHeader err)"
  shows "Execute e info w =
     (Panicked nil_dereference,
      w\<lparr>stdout := stdout w @ ['' -> Download...\<newline>'', '' -> Extract...\<newline>''],
        trace := trace w @ [NewRequest (BrowserDownloadURL a) None,
          Do (BrowserDownloadURL a) None, NewReader (Some err), Close ResponseBody]\<rparr>)"
  using assms by (simp add: Execute_def run_defs)

theorem Execute_panics_before_success_message_witness:
  "fst (Execute bad_gzip_env main_infos demo_world) = Panicked nil_dereference
   \<and> stdout (snd (Execute bad_gzip_env main_infos demo_world))
       = ['' -> Download...\<newline>'', '' -> Extract...\<newline>'']
   \<and> fresh_new main_infos \<notin> set (stdout (snd (Execute bad_gzip_env main_infos demo_world)))"
proof -
  let ?a = "\<lparr>Name = ''update-v1.2.0-linux-amd64.tar.gz'', BrowserDownloadURL = ''https://host/linux''\<rparr>"
  have chk: "check_result bad_gzip_env (AppRepoOwner main_infos) (AppName main_infos)
      (AppVersion main_infos) = (True, demo_release, None)"
    by (simp add: demo_defs)
  have found: "find_asset (buildFilename bad_gzip_env (TagName demo_release) main_infos)
      (Assets demo_release) = Some ?a"
    by (simp add: demo_defs)
  have req: "request_err bad_gzip_env (BrowserDownloadURL ?a) = None"
    by (simp add: demo_defs)
  have resp: "do_result bad_gzip_env (BrowserDownloadURL ?a)
      = Inr (BadGzipHeader ''gzip: invalid header'')"
    by (simp add: demo_defs)
  from Execute_panics_before_success_message [OF chk found req resp, of demo_world]
  show ?thesis by (simp add: demo_world_def fresh_new_def main_infos_def newInfos_def)
qed

text \<open>
  C4. When the archive the server sends has no entry, \<open>downloadBinary\<close> returns a
  \<open>DownloadError\<close>, calls neither \<open>os.CreateTemp\<close> nor \<open>os.Rename\<close>, and leaves every
  file as it was. The same holds in every run in which \<open>tarReader.Next()\<close> returns an
  error, and the error returned is then that one.
\<close>

theorem empty_archive_is_download_error:
  assumes "downloadBinary e uri info w = (r, w')"
  shows "(do_result e uri = Inr (GzipStream s) \<and> entries s = [] \<longrightarrow>
            (\<exists>err. r = Returned (Some (DownloadError err)))
          \<and> fs w' = fs w
          \<and> (\<forall>dir pattern x. CreateTemp dir pattern x \<notin> set (calls_between w w'))
          \<and> (\<forall>a b x. Rename a b x \<notin> set (calls_between w w')))
       \<and> (Next (Some err) \<in> set (calls_between w w') \<longrightarrow>
            r = Returned (Some (DownloadError err))
          \<and> fs w' = fs w
          \<and> (\<forall>dir pattern x. CreateTemp dir pattern x \<notin> set (calls_between w w'))
          \<and> (\<forall>a b x. Rename a b x \<notin> set (calls_between w w')))"
  using assms by (cases rule: downloadBinary_run) (auto simp: calls_between_def)

theorem empty_archive_is_download_error_witness:
  "do_result empty_archive_env ''https://host/linux''
     = Inr (GzipStream \<lparr>entries = [], ending = None\<rparr>)
   \<and> Next (Some ''EOF'')
     \<in> set (calls_between demo_world
         (snd (downloadBinary empty_archive_env ''https://host/linux'' main_infos demo_world)))
   \<and> fst (downloadBinary empty_archive_env ''https://host/linux'' main_infos demo_world)
       = Returned (Some (DownloadError ''EOF''))
   \<and> fs (snd (downloadBinary empty_archive_env ''https://host/linux'' main_infos demo_world))
       = fs demo_world"
proof -
  let ?run = "downloadBinary empty_archive_env ''https://host/linux'' main_infos demo_world"
  have empty: "do_result empty_archive_env ''https://host/linux''
      = Inr (GzipStream \<lparr>entries = [], ending = None\<rparr>)"
    by (simp add: demo_defs)
  have failed: "Next (Some ''EOF'') \<in> set (calls_between demo_world (snd ?run))"
    by (simp add: run_defs demo_defs)
  from empty_archive_is_download_error [of empty_archive_env "''https://host/linux''" main_infos
      demo_world "fst ?run" "snd ?run" "\<lparr>entries = [], ending = None\<rparr>" "''EOF''"]
    empty failed
  show ?thesis by simp
qed



text \<open>
  C6. When no asset of the release has the name \<open>buildFilename\<close> gives for the platform,
  \<open>Execute\<close> does what it does when there is no update: it prints the up-to-date line
  and returns, with no other effect. An asset is selected when its name equals that name
  and no asset before it in the list has it; \<open>Execute\<close> then requests the URL of that
  asset and no other.
\<close>

theorem no_matching_asset_is_up_to_date:
  assumes "check_result e (AppRepoOwner info) (AppName info) (AppVersion info) = (hasUpdate, rel, cerr)"
  shows "((\<forall>a\<in>set (Assets rel). Name a \<noteq> buildFilename e (TagName rel) info) \<longrightarrow>
            Execute e info w = (Returned (), w\<lparr>stdout := stdout w @ [up_to_date info]\<rparr>)
          \<and> Execute e info w
              = Execute (e\<lparr>check_result := \<lambda>owner name ver. (False, rel, cerr)\<rparr>) info w)
       \<and> (hasUpdate \<and> Assets rel = pre @ a # post
            \<and> Name a = buildFilename e (TagName rel) info
            \<and> (\<forall>b\<in>set pre. Name b \<noteq> buildFilename e (TagName rel) info) \<longrightarrow>
            NewRequest (BrowserDownloadURL a) (request_err e (BrowserDownloadURL a))
              \<in> set (calls_between w (snd (Execute e info w)))
          \<and> (\<forall>u x. NewRequest u x \<in> set (calls_between w (snd (Execute e info w)))
                \<longrightarrow> u = BrowserDownloadURL a))"
proof (intro conjI impI)
  assume none: "\<forall>a\<in>set (Assets rel). Name a \<noteq> buildFilename e (TagName rel) info"
  then have "find_asset (buildFilename e (TagName rel) info) (Assets rel) = None"
    by (simp add: find_asset_None)
  with assms show up: "Execute e info w = (Returned (), w\<lparr>stdout := stdout w @ [up_to_date info]\<rparr>)"
    by (simp add: Execute_def Print_def)
  show "Execute e info w
      = Execute (e\<lparr>check_result := \<lambda>owner name ver. (False, rel, cerr)\<rparr>) info w"
    unfolding up by (simp add: Execute_def Print_def)
next
  assume sel: "hasUpdate \<and> Assets rel = pre @ a # post
      \<and> Name a = buildFilename e (TagName rel) info
      \<and> (\<forall>b\<in>set pre. Name b \<noteq> buildFilename e (TagName rel) info)"
  then have found: "find_asset (buildFilename e (TagName rel) info) (Assets rel) = Some a"
    unfolding find_asset_Some by blast
  obtain r w' where run: "downloadBinary e (BrowserDownloadURL a) info w = (r, w')"
    by (cases "downloadBinary e (BrowserDownloadURL a) info w")
  from assms sel found run
  have "calls_between w (snd (Execute e info w)) = calls_between w w'"
    by (auto simp: Execute_def Print_def calls_between_def split: exit.splits option.splits)
  with downloadBinary_requests_uri [OF run]
  show "NewRequest (BrowserDownloadURL a) (request_err e (BrowserDownloadURL a))
        \<in> set (calls_between w (snd (Execute e info w)))"
    and "\<forall>u x. NewRequest u x \<in> set (calls_between w (snd (Execute e info w)))
        \<longrightarrow> u = BrowserDownloadURL a"
    by simp_all
qed

theorem no_matching_asset_is_up_to_date_witness:
  "check_result windows_env (AppRepoOwner main_infos) (AppName main_infos) (AppVersion main_infos)
     = (True, demo_release, None)
   \<and> buildFilename windows_env (TagName demo_release) main_infos
       = ''update-v1.2.0-windows-amd64.tar.gz''
   \<and> Execute windows_env main_infos demo_world
       = (Returned (),
          demo_world\<lparr>stdout := [''Your update is up-to-date. '' @ [CHR 0x5C] @ ''o/\<newline>'']\<rparr>)
   \<and> Execute windows_env main_infos demo_world = Execute no_update_env main_infos demo_world
   \<and> NewRequest ''https://host/linux'' None
       \<in> set (calls_between demo_world (snd (Execute demo_env main_infos demo_world)))
   \<and> NewRequest ''https://host/other'' None
       \<notin> set (calls_between demo_world (snd (Execute demo_env main_infos demo_world)))"
proof -
  have chk: "check_result windows_env (AppRepoOwner main_infos) (AppName main_infos)
      (AppVersion main_infos) = (True, demo_release, None)"
    by (simp add: demo_defs)
  have fn: "buildFilename windows_env (TagName demo_release) main_infos
      = ''update-v1.2.0-windows-amd64.tar.gz''"
    by (simp add: demo_defs)
  have none: "\<forall>a\<in>set (Assets demo_release).
      Name a \<noteq> buildFilename windows_env (TagName demo_release) main_infos"
    unfolding fn by (simp add: demo_defs)
  have same: "windows_env\<lparr>check_result := \<lambda>owner name ver. (False, demo_release, None)\<rparr>
      = no_update_env\<lparr>GOOS := ''windows''\<rparr>"
    by (simp add: demo_defs)
  have other: "Execute (no_update_env\<lparr>GOOS := ''windows''\<rparr>) main_infos demo_world
      = Execute no_update_env main_infos demo_world"
    by (simp add: Execute_def demo_defs)
  have chk': "check_result demo_env (AppRepoOwner main_infos) (AppName main_infos)
      (AppVersion main_infos) = (True, demo_release, None)"
    by (simp add: demo_defs)
  have sel: "True \<and> Assets demo_release
        = [\<lparr>Name = ''update-v1.2.0-darwin-arm64.tar.gz'', BrowserDownloadURL = ''https://host/darwin''\<rparr>]
          @ \<lparr>Name = ''update-v1.2.0-linux-amd64.tar.gz'', BrowserDownloadURL = ''https://host/linux''\<rparr>
          # [\<lparr>Name = ''update-v1.2.0-linux-amd64.tar.gz'', BrowserDownloadURL = ''https://host/other''\<rparr>]
      \<and> Name \<lparr>Name = ''update-v1.2.0-linux-amd64.tar.gz'', BrowserDownloadURL = ''https://host/linux''\<rparr>
          = buildFilename demo_env (TagName demo_release) main_infos
      \<and> (\<forall>b\<in>set [\<lparr>Name = ''update-v1.2.0-darwin-arm64.tar.gz'',
                     BrowserDownloadURL = ''https://host/darwin''\<rparr>].
            Name b \<noteq> buildFilename demo_env (TagName demo_release) main_infos)"
    by (simp add: demo_defs)
  have req: "request_err demo_env ''https://host/linux'' = None"
    by (simp add: demo_defs)
  have out: "stdout demo_world @ [up_to_date main_infos]
      = [''Your update is up-to-date. '' @ [CHR 0x5C] @ ''o/\<newline>'']"
    by (simp add: up_to_date_def demo_world_def main_infos_def newInfos_def)
  from no_matching_asset_is_up_to_date [OF chk, THEN conjunct1, THEN mp, OF none,
      of demo_world]
  have first: "Execute windows_env main_infos demo_world
       = (Returned (),
          demo_world\<lparr>stdout := [''Your update is up-to-date. '' @ [CHR 0x5C] @ ''o/\<newline>'']\<rparr>)
     \<and> Execute windows_env main_infos demo_world = Execute no_update_env main_infos demo_world"
    unfolding same other out .
  from no_matching_asset_is_up_to_date [OF chk', THEN conjunct2, THEN mp, OF sel,
      of demo_world]
  have second: "NewRequest ''https://host/linux'' None
       \<in> set (calls_between demo_world (snd (Execute demo_env main_infos demo_world)))
     \<and> NewRequest ''https://host/other'' None
       \<notin> set (calls_between demo_world (snd (Execute demo_env main_infos demo_world)))"
    using req by auto
  from chk fn first second show ?thesis by blast
qed

text \<open>
  C7. \<open>buildFilename\<close> is a function of the app name, the tag and the platform's two
  identifiers only: it returns the four joined by hyphens and followed by \<open>.tar.gz\<close>,
  whatever the rest of the environment and of the app's description is. For the app
  \<open>update\<close>, the tag \<open>v1.2.0\<close>, on \<open>linux\<close> and \<open>amd64\<close>, that is
  \<open>update-v1.2.0-linux-amd64.tar.gz\<close>.
\<close>

theorem buildFilename_pure:
  "buildFilename (e\<lparr>GOOS := os, GOARCH := arch\<rparr>) tag (info\<lparr>AppName := appName\<rparr>)
     = appName @ ''-'' @ tag @ ''-'' @ os @ ''-'' @ arch @ ''.tar.gz''
   \<and> buildFilename (e\<lparr>GOOS := ''linux'', GOARCH := ''amd64''\<rparr>) ''v1.2.0''
        (info\<lparr>AppName := ''update''\<rparr>)
     = ''update-v1.2.0-linux-amd64.tar.gz''"
  by (simp add: buildFilename_def)



text \<open>
  C9. The specification says that opening the gzip stream cannot make \<open>downloadBinary\<close>
  fail and that a decompression error is returned as a \<open>DownloadError\<close>. In the code,
  \<open>gzip.NewReader\<close> reads the gzip header when it is called; when it rejects the header
  it returns a nil reader and an error, the error is assigned to \<open>_\<close>, and the first read
  through the nil reader, in \<open>tarReader.Next()\<close>, is a nil pointer dereference. For every
  response whose body \<open>gzip.NewReader\<close> rejects, \<open>downloadBinary\<close> panics: it returns no
  error value, and it has made no call after \<open>gzip.NewReader\<close> but the deferred close of
  the response body.
\<close>

theorem rejected_gzip_header_panics:
  assumes "request_err e uri = None" and "do_result e uri = Inr (BadGzipHeader err)"
  shows "downloadBinary e uri info w =
     (Panicked nil_dereference,
      w\<lparr>stdout := stdout w @ ['' -> Download...\<newline>'', '' -> Extract...\<newline>''],
        trace := trace w @ [NewRequest uri None, Do uri None, NewReader (Some err),
          Close ResponseBody]\<rparr>)"
  using assms by (simp add: run_defs)

theorem rejected_gzip_header_panics_witness:
  "request_err bad_gzip_env ''https://host/linux'' = None
   \<and> do_result bad_gzip_env ''https://host/linux'' = Inr (BadGzipHeader ''gzip: invalid header'')
   \<and> downloadBinary bad_gzip_env ''https://host/linux'' main_infos demo_world =
       (Panicked nil_dereference,
        demo_world\<lparr>stdout := ['' -> Download...\<newline>'', '' -> Extract...\<newline>''],
          trace := [NewRequest ''https://host/linux'' None, Do ''https://host/linux'' None,
            NewReader (Some ''gzip: invalid header''), Close ResponseBody]\<rparr>)"
proof -
  have req: "request_err bad_gzip_env ''https://host/linux'' = None"
    by (simp add: demo_defs)
  have resp: "do_result bad_gzip_env ''https://host/linux''
      = Inr (BadGzipHeader ''gzip: invalid header'')"
    by (simp add: demo_defs)
  have start: "stdout demo_world = []" "trace demo_world = []"
    by (simp_all add: demo_world_def)
  from rejected_gzip_header_panics [OF req resp, of main_infos demo_world]
  have "downloadBinary bad_gzip_env ''https://host/linux'' main_infos demo_world =
       (Panicked nil_dereference,
        demo_world\<lparr>stdout := ['' -> Download...\<newline>'', '' -> Extract...\<newline>''],
          trace := [NewRequest ''https://host/linux'' None, Do ''https://host/linux'' None,
            NewReader (Some ''gzip: invalid header''), Close ResponseBody]\<rparr>)"
    unfolding start by simp
  with req resp show ?thesis by blast
qed

text \<open>
  C10. \<open>downloadBinary\<close> never looks at the error of \<open>osext.Executable\<close>. In every run
  that calls it, whatever it returns, the next call is \<open>os.CreateTemp\<close> with the
  directory \<open>path.Dir\<close> gives for the path returned, and every rename of the run is onto
  the path returned. What \<open>downloadBinary\<close> returns, the files and the output are those
  of the run in which \<open>osext.Executable\<close> returns the same path and no error.
\<close>

theorem executable_error_is_dropped:
  assumes "downloadBinary e uri info w = (r, w')"
  shows "(Executable exe xerr \<in> set (calls_between w w') \<longrightarrow>
            executable_result e = (exe, xerr)
          \<and> (\<exists>pre x post. calls_between w w' =
                pre @ [Executable exe xerr, CreateTemp (path_Dir e exe) (AppName info) x] @ post)
          \<and> (\<forall>a b x. Rename a b x \<in> set (calls_between w w') \<longrightarrow> b = exe))
       \<and> (executable_result e = (exe, xerr) \<longrightarrow>
            fst (downloadBinary (e\<lparr>executable_result := (exe, None)\<rparr>) uri info w) = r
          \<and> fs (snd (downloadBinary (e\<lparr>executable_result := (exe, None)\<rparr>) uri info w)) = fs w'
          \<and> stdout (snd (downloadBinary (e\<lparr>executable_result := (exe, None)\<rparr>) uri info w))
              = stdout w')"
proof (intro conjI impI)
  assume called: "Executable exe xerr \<in> set (calls_between w w')"
  with assms show "executable_result e = (exe, xerr)"
    by (cases rule: downloadBinary_run) (auto simp: calls_between_def)
  from assms called show "\<forall>a b x. Rename a b x \<in> set (calls_between w w') \<longrightarrow> b = exe"
    by (cases rule: downloadBinary_run) (auto simp: calls_between_def)
  let ?pre = "[NewRequest uri None, Do uri None, NewReader None, Next None]"
  from assms called
  show "\<exists>pre x post. calls_between w w' =
      pre @ [Executable exe xerr, CreateTemp (path_Dir e exe) (AppName info) x] @ post"
  proof (cases rule: downloadBinary_run)
    case (createTemp s ent rest exe' xerr' err)
    with called have "exe' = exe" "xerr' = xerr"
      by (auto simp: calls_between_def)
    with createTemp(7) have "calls_between w w' =
        ?pre @ [Executable exe xerr, CreateTemp (path_Dir e exe) (AppName info) (Inl err)]
        @ [Close GzipReader, Close ResponseBody]"
      by (simp add: calls_between_def)
    then show ?thesis by blast
  next
    case (copy s ent rest exe' xerr' name written err)
    with called have "exe' = exe" "xerr' = xerr"
      by (auto simp: calls_between_def)
    with copy(9) have "calls_between w w' =
        ?pre @ [Executable exe xerr, CreateTemp (path_Dir e exe) (AppName info) (Inr name)]
        @ [Copy name (Some err), Close (TempFile name), Close GzipReader, Close ResponseBody]"
      by (simp add: calls_between_def)
    then show ?thesis by blast
  next
    case (chmod s ent rest exe' xerr' name written err)
    with called have "exe' = exe" "xerr' = xerr"
      by (auto simp: calls_between_def)
    with chmod(10) have "calls_between w w' =
        ?pre @ [Executable exe xerr, CreateTemp (path_Dir e exe) (AppName info) (Inr name)]
        @ [Copy name None, Chmod name binaryChmodValue (Some err),
           Close (TempFile name), Close GzipReader, Close ResponseBody]"
      by (simp add: calls_between_def)
    then show ?thesis by blast
  next
    case (rename s ent rest exe' xerr' name written err)
    with called have "exe' = exe" "xerr' = xerr"
      by (auto simp: calls_between_def)
    with rename(11) have "calls_between w w' =
        ?pre @ [Executable exe xerr, CreateTemp (path_Dir e exe) (AppName info) (Inr name)]
        @ [Copy name None, Chmod name binaryChmodValue None, Rename name exe (Some err),
           Close (TempFile name), Close GzipReader, Close ResponseBody]"
      by (simp add: calls_between_def)
    then show ?thesis by blast
  next
    case (success s ent rest exe' xerr' name written)
    with called have "exe' = exe" "xerr' = xerr"
      by (auto simp: calls_between_def)
    with success(11) have "calls_between w w' =
        ?pre @ [Executable exe xerr, CreateTemp (path_Dir e exe) (AppName info) (Inr name)]
        @ [Copy name None, Chmod name binaryChmodValue None, Rename name exe None,
           Close (TempFile name), Close GzipReader, Close ResponseBody]"
      by (simp add: calls_between_def)
    then show ?thesis by blast
  qed (auto simp: calls_between_def)
next
  assume ex: "executable_result e = (exe, xerr)"
  let ?run = "downloadBinary (e\<lparr>executable_result := (exe, None)\<rparr>) uri info w"
  from executable_error_unused [OF assms surjective_pairing ex]
  show "fst ?run = r" and "fs (snd ?run) = fs w'" and "stdout (snd ?run) = stdout w'"
    by simp_all
qed

theorem executable_error_is_dropped_witness:
  "executable_result no_exe_env = ([], Some ''readlink /proc/self/exe: permission denied'')
   \<and> Executable [] (Some ''readlink /proc/self/exe: permission denied'')
       \<in> set (calls_between demo_world
            (snd (downloadBinary no_exe_env ''https://host/linux'' main_infos demo_world)))
   \<and> (\<exists>pre x post.
         calls_between demo_world
           (snd (downloadBinary no_exe_env ''https://host/linux'' main_infos demo_world))
         = pre @ [Executable [] (Some ''readlink /proc/self/exe: permission denied''),
                  CreateTemp ''.'' ''update'' x] @ post)
   \<and> Rename ''./update123'' [] (Some ''rename ./update123 : no such file or directory'')
       \<in> set (calls_between demo_world
            (snd (downloadBinary no_exe_env ''https://host/linux'' main_infos demo_world)))
   \<and> fst (downloadBinary no_exe_env ''https://host/linux'' main_infos demo_world)
       = Returned (Some (DownloadError ''rename ./update123 : no such file or directory''))
   \<and> fst (downloadBinary (no_exe_env\<lparr>executable_result := ([], None)\<rparr>)
            ''https://host/linux'' main_infos demo_world)
       = Returned (Some (DownloadError ''rename ./update123 : no such file or directory''))"
proof -
  let ?run = "downloadBinary no_exe_env ''https://host/linux'' main_infos demo_world"
  let ?err = "''readlink /proc/self/exe: permission denied''"
  have res: "executable_result no_exe_env = ([], Some ?err)"
    by (simp add: demo_defs)
  have called: "Executable [] (Some ?err) \<in> set (calls_between demo_world (snd ?run))"
    by (simp add: run_defs demo_defs)
  have renamed: "Rename ''./update123'' [] (Some ''rename ./update123 : no such file or directory'')
      \<in> set (calls_between demo_world (snd ?run))"
    by (simp add: run_defs demo_defs)
  have returned: "fst ?run
      = Returned (Some (DownloadError ''rename ./update123 : no such file or directory''))"
    by (simp add: run_defs demo_defs)
  have dir: "path_Dir no_exe_env [] = ''.''" "AppName main_infos = ''update''"
    by (simp_all add: demo_defs)
  note dropped = executable_error_is_dropped [OF surjective_pairing, where e = no_exe_env
      and uri = "''https://host/linux''" and info = main_infos and w = demo_world
      and exe = "[]" and xerr = "Some ?err"]
  from dropped [THEN conjunct1, THEN mp, OF called]
  have next_call: "\<exists>pre x post. calls_between demo_world (snd ?run)
      = pre @ [Executable [] (Some ?err), CreateTemp ''.'' ''update'' x] @ post"
    unfolding dir by blast
  from dropped [THEN conjunct2, THEN mp, OF res]
  have same: "fst (downloadBinary (no_exe_env\<lparr>executable_result := ([], None)\<rparr>)
      ''https://host/linux'' main_infos demo_world) = fst ?run"
    by blast
  from res called next_call renamed returned same show ?thesis
    unfolding same returned by blast
qed

end
